theory Spec2Isabelle
  imports Complex_Main "HOL-Library.Word"
begin

section \<open>Conventions of the embedding\<close>

text \<open>
  The functions of \<^verbatim>\<open>rente.py\<close> and \<^verbatim>\<open>vorsorgeaufw.py\<close> work on Python scalars, the
  functions of \<^verbatim>\<open>grundsicherung.py\<close> on pandas series.

  \<^item> A Python \<^verbatim>\<open>int\<close> is an \<^typ>\<open>int\<close>, a finite Python \<^verbatim>\<open>float\<close> is a \<^typ>\<open>real\<close>:
    arithmetic is exact, rounding and overflow of the binary format are not modelled.
    An \<^verbatim>\<open>int\<close> that meets a \<^verbatim>\<open>float\<close> is converted with \<^term>\<open>real_of_int\<close>, as Python does.
  \<^item> The rows of an integer series are 64-bit signed integers (dtype int64). Where the code
    does arithmetic on them the row is a \<^typ>\<open>64 word\<close>, read with \<^term>\<open>sint\<close>, whose
    multiplication wraps as the series' does; where they are only compared or divided into a
    float the row is the \<^typ>\<open>int\<close> it denotes.
  \<^item> A parameter dictionary is a record with one field per key the code reads, so a
    missing key is excluded by the type.
  \<^item> A raised exception is the left summand of a result \<open>py_error + 'a\<close>.
  \<^item> The decorator \<^verbatim>\<open>add_rounding_spec\<close> attaches the key under which the driver finds
    rounding parameters and hands the function back as it is; the bodies below do not round.
\<close>

datatype py_error = TypeError | ValueError | ZeroDivisionError

section \<open>rente.py: the public pension\<close>

text \<open>
  The keys of \<^verbatim>\<open>ges_rente_params\<close> that the functions below read. The two piecewise
  descriptors (thresholds, rates, intercepts at the lower thresholds) are only handed on to
  \<^verbatim>\<open>piecewise_polynomial\<close>, which lives in another module; their type is left open.
\<close>

record zugangsfaktor_veraenderung =
  vorzeitiger_renteneintritt :: real
  spaeterer_renteneintritt :: real

record 'spec ges_rente_params =
  zugangsfaktor_veraenderung_pro_jahr :: zugangsfaktor_veraenderung
  regelaltersgrenze :: 'spec
  altersrente_fuer_frauen :: 'spec

text \<open>
  \<^verbatim>\<open>out = ges_rente_vor_grundr_m + grundr_zuschlag_m if rentner else 0.0\<close>
\<close>

definition ges_rente_nach_grundr_m :: "real \<Rightarrow> real \<Rightarrow> bool \<Rightarrow> real" where
  "ges_rente_nach_grundr_m ges_rente_vor_grundr_m' grundr_zuschlag_m rentner =
     (if rentner then ges_rente_vor_grundr_m' + grundr_zuschlag_m else 0)"

definition ges_rente_vor_grundr_m :: "real \<Rightarrow> real \<Rightarrow> real \<Rightarrow> bool \<Rightarrow> real" where
  "ges_rente_vor_grundr_m ges_rente_zugangsfaktor' entgeltp_update rentenwert rentner =
     (if rentner then entgeltp_update * ges_rente_zugangsfaktor' * rentenwert else 0)"

text \<open>
  The access factor. The retirement age is a
  difference of two integers, from which the float \<^verbatim>\<open>ges_rente_regelaltersgrenze\<close> is
  subtracted.
\<close>

definition ges_rente_zugangsfaktor ::
  "int \<Rightarrow> bool \<Rightarrow> int \<Rightarrow> real \<Rightarrow> 'spec ges_rente_params \<Rightarrow> real" where
  "ges_rente_zugangsfaktor geburtsjahr rentner jahr_renteneintr ges_rente_regelaltersgrenze
       ges_rente_params =
     (if rentner then
        (let alter_renteneintritt = jahr_renteneintr - geburtsjahr;
             diff = real_of_int alter_renteneintritt - ges_rente_regelaltersgrenze;
             faktor_pro_jahr_vorzeitig =
               vorzeitiger_renteneintritt (zugangsfaktor_veraenderung_pro_jahr ges_rente_params);
             faktor_pro_jahr_spaeter =
               spaeterer_renteneintritt (zugangsfaktor_veraenderung_pro_jahr ges_rente_params);
             out = (if diff < 0 then 1 + diff * faktor_pro_jahr_vorzeitig
                    else 1 + diff * faktor_pro_jahr_spaeter)
         in max out 0)
      else 0)"

subsection \<open>The full retirement age\<close>

text \<open>
  \<^verbatim>\<open>ges_rente_grenze_altersrente\<close> builds a Python list, extends it and takes its minimum.
  The values those steps can meet are a float, a list of floats and \<^verbatim>\<open>None\<close>.
\<close>

datatype py_value = PyNone | PyFloat real | PyList "real list"

text \<open>Iterating over a value: a list yields its elements, a float and \<^verbatim>\<open>None\<close> raise.\<close>

fun py_iter :: "py_value \<Rightarrow> py_error + real list" where
  "py_iter (PyList xs) = Inr xs"
| "py_iter (PyFloat x) = Inl TypeError"
| "py_iter PyNone = Inl TypeError"

text \<open>
  \<^verbatim>\<open>xs.extend(v)\<close> iterates over \<open>v\<close> and appends in place. The result is the pair of the
  list object after the call and the value of the call expression, which is \<^verbatim>\<open>None\<close>.
\<close>

definition list_extend :: "real list \<Rightarrow> py_value \<Rightarrow> py_error + (real list \<times> py_value)" where
  "list_extend xs v =
     (case py_iter v of Inl e \<Rightarrow> Inl e | Inr ys \<Rightarrow> Inr (xs @ ys, PyNone))"

text \<open>\<^verbatim>\<open>min(v)\<close> of one argument iterates over it; an empty sequence raises ValueError.\<close>

definition py_min :: "py_value \<Rightarrow> py_error + real" where
  "py_min v =
     (case py_iter v of
        Inl e \<Rightarrow> Inl e
      | Inr [] \<Rightarrow> Inl ValueError
      | Inr (y # ys) \<Rightarrow> Inr (fold min ys y))"

text \<open>
  \<^verbatim>\<open>piecewise_polynomial\<close> is a parameter \<open>pp\<close> of the model: any function from the point
  and the descriptor to a float, as the annotations \<^verbatim>\<open>-> float\<close> say.
  After \<^verbatim>\<open>thresholds_w = thresholds_m.extend(pension_for_women)\<close> the name
  \<^verbatim>\<open>thresholds_m\<close> denotes the extended list and \<^verbatim>\<open>thresholds_w\<close> the value of the call.
\<close>

definition ges_rente_grenze_altersrente ::
  "(real \<Rightarrow> 'spec \<Rightarrow> real) \<Rightarrow> int \<Rightarrow> int \<Rightarrow> int \<Rightarrow> 'spec ges_rente_params \<Rightarrow> py_error + real" where
  "ges_rente_grenze_altersrente pp geburtsjahr geburtsmonat geschlecht ges_rente_params =
     (let regelrente = pp (real_of_int geburtsjahr) (regelaltersgrenze ges_rente_params);
          pension_for_women =
            pp (real_of_int geburtsjahr + real_of_int geburtsmonat / 12)
               (altersrente_fuer_frauen ges_rente_params);
          thresholds_m = [regelrente]
      in case list_extend thresholds_m (PyFloat pension_for_women) of
           Inl e \<Rightarrow> Inl e
         | Inr (thresholds_m, thresholds_w) \<Rightarrow>
             (let thresholds = (if geschlecht = 0 then PyList thresholds_m else thresholds_w)
              in py_min thresholds))"

section \<open>vorsorgeaufw.py: deductible retirement and insurance contributions\<close>

text \<open>
  The keys of \<^verbatim>\<open>eink_st_abzuege_params\<close> read by this module. Names that start with an
  underscore in the source lose it here.
\<close>

record eink_st_abzuege_params =
  einfuehrungsfaktor_vorsorgeaufw_alter_ab_2005 :: real
  vorsorge_altersaufw_max :: real
  vorsorge_sonstige_aufw_max :: real
  vorsorge_kranken_minderung :: real
  vorsorge_2004_grundhoechstbetrag :: real
  vorsorge2004_vorwegabzug :: real
  vorsorge2004_kuerzung_vorwegabzug :: real

definition vorsorgeaufw_alter_tu :: "real \<Rightarrow> real \<Rightarrow> int \<Rightarrow> eink_st_abzuege_params \<Rightarrow> real" where
  "vorsorgeaufw_alter_tu ges_rentenv_beitr_m_tu priv_rentenv_beitr_m_tu anz_erwachsene_tu
       eink_st_abzuege_params =
     (let out = (einfuehrungsfaktor_vorsorgeaufw_alter_ab_2005 eink_st_abzuege_params
                   * (2 * ges_rentenv_beitr_m_tu + priv_rentenv_beitr_m_tu)
                 - ges_rentenv_beitr_m_tu) * 12;
          max_value = real_of_int anz_erwachsene_tu
                        * vorsorge_altersaufw_max eink_st_abzuege_params
      in min out max_value)"

definition vorsorge_alternative_tu_ab_2005_bis_2009 ::
  "real \<Rightarrow> real \<Rightarrow> real \<Rightarrow> real \<Rightarrow> int \<Rightarrow> eink_st_abzuege_params \<Rightarrow> real" where
  "vorsorge_alternative_tu_ab_2005_bis_2009 vorsorgeaufw_alter_tu' ges_krankenv_beitr_m_tu
       arbeitsl_v_beitr_m_tu ges_pflegev_beitr_m_tu anz_erwachsene_tu eink_st_abzuege_params =
     (let sum_vorsorge =
            12 * (ges_krankenv_beitr_m_tu + arbeitsl_v_beitr_m_tu + ges_pflegev_beitr_m_tu);
          max_value = real_of_int anz_erwachsene_tu
                        * vorsorge_sonstige_aufw_max eink_st_abzuege_params;
          sum_vorsorge = min sum_vorsorge max_value
      in sum_vorsorge + vorsorgeaufw_alter_tu')"

definition vorsorgeaufw_tu_ab_2005_bis_2009 :: "real \<Rightarrow> real \<Rightarrow> real" where
  "vorsorgeaufw_tu_ab_2005_bis_2009 vorsorge_alternative_tu_ab_2005_bis_2009'
       vorsorgeaufw_tu_bis_2004' =
     max vorsorgeaufw_tu_bis_2004' vorsorge_alternative_tu_ab_2005_bis_2009'"

definition vorsorgeaufw_tu_ab_2010_bis_2019 :: "real \<Rightarrow> real \<Rightarrow> real" where
  "vorsorgeaufw_tu_ab_2010_bis_2019 vorsorgeaufw_tu_bis_2004' vorsorgeaufw_tu_ab_2020' =
     max vorsorgeaufw_tu_bis_2004' vorsorgeaufw_tu_ab_2020'"

definition vorsorgeaufw_tu_ab_2020 ::
  "real \<Rightarrow> real \<Rightarrow> real \<Rightarrow> real \<Rightarrow> int \<Rightarrow> eink_st_abzuege_params \<Rightarrow> real" where
  "vorsorgeaufw_tu_ab_2020 vorsorgeaufw_alter_tu' ges_pflegev_beitr_m_tu ges_krankenv_beitr_m_tu
       arbeitsl_v_beitr_m_tu anz_erwachsene_tu eink_st_abzuege_params =
     (let basiskrankenversicherung =
            12 * (ges_pflegev_beitr_m_tu
                  + (1 - vorsorge_kranken_minderung eink_st_abzuege_params)
                    * ges_krankenv_beitr_m_tu);
          sonst_vors_max = vorsorge_sonstige_aufw_max eink_st_abzuege_params
                             * real_of_int anz_erwachsene_tu;
          sonst_vors_before_basiskrankenv =
            min (12 * (arbeitsl_v_beitr_m_tu + ges_pflegev_beitr_m_tu + ges_krankenv_beitr_m_tu))
                sonst_vors_max;
          sonst_vors = max basiskrankenversicherung sonst_vors_before_basiskrankenv
      in sonst_vors + vorsorgeaufw_alter_tu')"

text \<open>
  Until 2004. \<^verbatim>\<open>1 / anz_erwachsene_tu\<close> divides by a Python \<^verbatim>\<open>int\<close> and raises
  ZeroDivisionError when it is 0; it is first evaluated for \<^verbatim>\<open>item_1\<close>, after
  \<^verbatim>\<open>multiplikator1\<close>.
\<close>

definition vorsorgeaufw_tu_bis_2004 ::
  "real \<Rightarrow> real \<Rightarrow> real \<Rightarrow> int \<Rightarrow> eink_st_abzuege_params \<Rightarrow> py_error + real" where
  "vorsorgeaufw_tu_bis_2004 vorsorgeaufw_vom_lohn_tu_bis_2004' ges_krankenv_beitr_m_tu
       ges_rentenv_beitr_m_tu anz_erwachsene_tu eink_st_abzuege_params =
     (let multiplikator1 =
            max (12 * (ges_rentenv_beitr_m_tu + ges_krankenv_beitr_m_tu)
                 - vorsorgeaufw_vom_lohn_tu_bis_2004') 0
      in if anz_erwachsene_tu = 0 then Inl ZeroDivisionError
         else
           (let item_1 = (1 / real_of_int anz_erwachsene_tu) * multiplikator1;
                multiplikator2 =
                  (if item_1 > vorsorge_2004_grundhoechstbetrag eink_st_abzuege_params
                   then vorsorge_2004_grundhoechstbetrag eink_st_abzuege_params
                   else item_1);
                item_2 = (1 / real_of_int anz_erwachsene_tu) * multiplikator2;
                hoechstgrenze_item3 =
                  real_of_int anz_erwachsene_tu
                    * vorsorge_2004_grundhoechstbetrag eink_st_abzuege_params;
                item_3 = (if (item_1 - item_2) > hoechstgrenze_item3
                          then 0.5 * hoechstgrenze_item3
                          else 0.5 * (item_1 - item_2))
            in Inr (vorsorgeaufw_vom_lohn_tu_bis_2004' + item_2 + item_3)))"

definition vorsorgeaufw_vom_lohn_tu_bis_2004 ::
  "real \<Rightarrow> bool \<Rightarrow> eink_st_abzuege_params \<Rightarrow> real" where
  "vorsorgeaufw_vom_lohn_tu_bis_2004 bruttolohn_m_tu gemeinsam_veranlagt_tu
       eink_st_abzuege_params =
     (let out =
            (if gemeinsam_veranlagt_tu then
               0.5 * (2 * vorsorge2004_vorwegabzug eink_st_abzuege_params
                      - vorsorge2004_kuerzung_vorwegabzug eink_st_abzuege_params
                        * 12 * bruttolohn_m_tu)
             else
               vorsorge2004_vorwegabzug eink_st_abzuege_params
               - vorsorge2004_kuerzung_vorwegabzug eink_st_abzuege_params
                 * 12 * bruttolohn_m_tu)
      in max out 0)"

text \<open>A parameter set used to evaluate the functions at concrete inputs.\<close>

definition params_example :: eink_st_abzuege_params where
  "params_example =
     \<lparr>einfuehrungsfaktor_vorsorgeaufw_alter_ab_2005 = 0.4,
      vorsorge_altersaufw_max = 20000,
      vorsorge_sonstige_aufw_max = 1500,
      vorsorge_kranken_minderung = 0.04,
      vorsorge_2004_grundhoechstbetrag = 1334,
      vorsorge2004_vorwegabzug = 3068,
      vorsorge2004_kuerzung_vorwegabzug = 0.16\<rparr>"

section \<open>grundsicherung.py: basic subsistence in old age\<close>

subsection \<open>Series\<close>

text \<open>
  A pandas series is a function from index labels to values; the series one function
  receives for the same level (person or household) share their index, as columns of one
  table do, so an operation between two of them works label by label. A series at the
  level of the tax unit is keyed by the tax unit's id and need not list every id: it is a
  partial map.
\<close>

type_synonym 'a series = "int \<Rightarrow> 'a"
type_synonym 'a group_series = "int \<rightharpoonup> 'a"

subsection \<open>Float values that a division can produce\<close>

text \<open>
  Dividing one series by another never raises in pandas: a zero divisor gives an infinity,
  or not-a-number for 0/0, and a label only one operand has gives not-a-number. Where the
  code divides by an input, the result is therefore a \<open>pd_float\<close>. The divisors of this
  module are integers, so a zero divisor is the positive zero.
\<close>

datatype pd_float = Fin real | PosInf | NegInf | NaN

fun pd_div_int :: "pd_float \<Rightarrow> int \<Rightarrow> pd_float" where
  "pd_div_int (Fin a) n =
     (if n \<noteq> 0 then Fin (a / real_of_int n)
      else if a = 0 then NaN
      else if 0 < a then PosInf else NegInf)"
| "pd_div_int PosInf n = (if n < 0 then NegInf else PosInf)"
| "pd_div_int NegInf n = (if n < 0 then PosInf else NegInf)"
| "pd_div_int NaN n = NaN"

fun pd_sub :: "pd_float \<Rightarrow> pd_float \<Rightarrow> pd_float" where
  "pd_sub (Fin a) (Fin b) = Fin (a - b)"
| "pd_sub (Fin a) PosInf = NegInf"
| "pd_sub (Fin a) NegInf = PosInf"
| "pd_sub PosInf (Fin b) = PosInf"
| "pd_sub PosInf NegInf = PosInf"
| "pd_sub PosInf PosInf = NaN"
| "pd_sub NegInf (Fin b) = NegInf"
| "pd_sub NegInf PosInf = NegInf"
| "pd_sub NegInf NegInf = NaN"
| "pd_sub NaN y = NaN"
| "pd_sub x NaN = NaN"

text \<open>\<^verbatim>\<open>clip(lower=l)\<close> raises every value below \<open>l\<close> to \<open>l\<close> and keeps not-a-number.\<close>

fun pd_clip_lower :: "real \<Rightarrow> pd_float \<Rightarrow> pd_float" where
  "pd_clip_lower l (Fin a) = Fin (max a l)"
| "pd_clip_lower l PosInf = PosInf"
| "pd_clip_lower l NegInf = Fin l"
| "pd_clip_lower l NaN = NaN"


text \<open>
  \<^verbatim>\<open>a / b\<close> for two series keyed by the tax unit: the result has the labels of both; a
  label one of them lacks gets not-a-number.
\<close>

definition series_truediv :: "real group_series \<Rightarrow> int group_series \<Rightarrow> pd_float group_series" where
  "series_truediv a b =
     (\<lambda>k. case (a k, b k) of
            (None, None) \<Rightarrow> None
          | (Some x, Some n) \<Rightarrow> Some (pd_div_int (Fin x) n)
          | (Some x, None) \<Rightarrow> Some NaN
          | (None, Some n) \<Rightarrow> Some NaN)"

definition series_div_scalar :: "pd_float group_series \<Rightarrow> int \<Rightarrow> pd_float group_series" where
  "series_div_scalar a n = (\<lambda>k. map_option (\<lambda>x. pd_div_int x n) (a k))"

text \<open>
  \<^verbatim>\<open>tu_id.replace(s)\<close> with a series \<open>s\<close> reads \<open>s\<close> as a mapping from its labels to its
  values: an id that is a label of \<open>s\<close> is replaced by the value there, any other id stays
  (as a float, once the column holds floats).
\<close>

definition series_replace :: "int series \<Rightarrow> pd_float group_series \<Rightarrow> pd_float series" where
  "series_replace tu_id s =
     (\<lambda>i. case s (tu_id i) of Some v \<Rightarrow> v | None \<Rightarrow> Fin (real_of_int (tu_id i)))"

subsection \<open>Series objects and their mutation\<close>

text \<open>
  \<^verbatim>\<open>out.loc[cond] = 0\<close> writes into the series object that \<open>out\<close> names. Float series
  objects therefore live in a store, and a function that creates or changes one takes the
  store and returns it. Boolean and integer series are only read and are passed by value.
  A row of a stored series is a \<open>pd_float\<close>: these series are results of earlier steps of
  the computation, which can hand on an infinity or not-a-number.
\<close>

type_synonym ref = nat

record store =
  cells :: "ref \<Rightarrow> pd_float series"
  next_ref :: ref

definition alloc :: "store \<Rightarrow> pd_float series \<Rightarrow> ref \<times> store" where
  "alloc h s = (next_ref h, h\<lparr>cells := (cells h)(next_ref h := s), next_ref := Suc (next_ref h)\<rparr>)"

text \<open>
  \<^verbatim>\<open>x.clip(lower=l)\<close> returns a new series object; each row is clipped as \<open>pd_clip_lower\<close>
  says, so a row that is not-a-number stays so.
\<close>

definition series_clip_lower :: "store \<Rightarrow> ref \<Rightarrow> real \<Rightarrow> ref \<times> store" where
  "series_clip_lower h x l = alloc h (\<lambda>i. pd_clip_lower l (cells h x i))"

text \<open>\<^verbatim>\<open>x.loc[cond] = v\<close> changes the object in place.\<close>

definition loc_assign :: "store \<Rightarrow> ref \<Rightarrow> bool series \<Rightarrow> pd_float \<Rightarrow> store" where
  "loc_assign h x cond v =
     h\<lparr>cells := (cells h)(x := (\<lambda>i. if cond i then v else cells h x i))\<rparr>"

subsection \<open>The functions of the module\<close>

definition grundsicherung_m_hh ::
  "store \<Rightarrow> ref \<Rightarrow> bool series \<Rightarrow> bool series \<Rightarrow> bool series \<Rightarrow> real series \<Rightarrow> real series
     \<Rightarrow> int series \<Rightarrow> int series \<Rightarrow> ref \<times> store" where
  "grundsicherung_m_hh h grundsicherung_m_minus_eink_hh wohngeld_vorrang_hh
       kinderzuschlag_vorrang_hh wohngeld_kinderzuschlag_vorrang_hh regelaltersgrenze' alter
       anz_erwachsene_hh anz_rentner_hh =
     (let (out, h1) = series_clip_lower h grundsicherung_m_minus_eink_hh 0;
          cond = (\<lambda>i. wohngeld_vorrang_hh i
                       \<or> kinderzuschlag_vorrang_hh i
                       \<or> wohngeld_kinderzuschlag_vorrang_hh i
                       \<or> alter i < regelaltersgrenze' i
                       \<or> anz_erwachsene_hh i \<noteq> anz_rentner_hh i);
          h2 = loc_assign h1 out cond (Fin 0)
      in (out, h2))"

definition grundsicherung_eink ::
  "real series \<Rightarrow> real group_series \<Rightarrow> int series \<Rightarrow> real group_series \<Rightarrow> int group_series
     \<Rightarrow> real series \<Rightarrow> real series \<Rightarrow> real series \<Rightarrow> pd_float series" where
  "grundsicherung_eink arbeitsl_geld_2_brutto_eink eink_st_tu tu_id soli_st_tu anz_erwachsene_tu
       sozialv_beitr_m eink_anr_frei_grundsicherung freibetrag_grundsicherung_grundrente =
     (\<lambda>i. pd_clip_lower 0
        (pd_sub
          (pd_sub
            (pd_sub
              (pd_sub
                (pd_sub (Fin (arbeitsl_geld_2_brutto_eink i))
                   (series_replace tu_id
                      (series_div_scalar (series_truediv eink_st_tu anz_erwachsene_tu) 12) i))
                (series_replace tu_id
                   (series_div_scalar (series_truediv soli_st_tu anz_erwachsene_tu) 12) i))
              (Fin (sozialv_beitr_m i)))
            (Fin (eink_anr_frei_grundsicherung i)))
          (Fin (freibetrag_grundsicherung_grundrente i))))"

text \<open>\<^verbatim>\<open>out = regelbedarf_m_hh\<close> binds a second name to the same object.\<close>

definition regelbedarf_m_grundsicherung_vermoegens_check_hh ::
  "store \<Rightarrow> ref \<Rightarrow> bool series \<Rightarrow> ref \<times> store" where
  "regelbedarf_m_grundsicherung_vermoegens_check_hh h regelbedarf_m_hh
       unter_vermoegens_freibetrag_grundsicherung_hh' =
     (let out = regelbedarf_m_hh;
          h1 = loc_assign h out (\<lambda>i. \<not> unter_vermoegens_freibetrag_grundsicherung_hh' i)
                 (Fin 0)
      in (out, h1))"

text \<open>
  The exempt wealth is an int64 series (see below); the comparison with the float series
  converts each of its rows to a float.
\<close>

definition unter_vermoegens_freibetrag_grundsicherung_hh ::
  "real series \<Rightarrow> 64 word series \<Rightarrow> bool series" where
  "unter_vermoegens_freibetrag_grundsicherung_hh vermoegen_hh
       freibetrag_vermoegen_grundsicherung_hh' =
     (\<lambda>i. vermoegen_hh i < real_of_int (sint (freibetrag_vermoegen_grundsicherung_hh' i)))"

text \<open>
  \<^verbatim>\<open>5000 * haushaltsgroesse_hh\<close> multiplies an int64 series by a Python \<^verbatim>\<open>int\<close>: the
  result is an int64 series again and a product outside the 64-bit range wraps silently.
\<close>

definition freibetrag_vermoegen_grundsicherung_hh :: "64 word series \<Rightarrow> 64 word series" where
  "freibetrag_vermoegen_grundsicherung_hh haushaltsgroesse_hh =
     (\<lambda>i. 5000 * haushaltsgroesse_hh i)"

subsection \<open>Concrete inputs\<close>

text \<open>A store with one series object, at reference 0, whose every row holds 100.\<close>

definition store_example :: store where
  "store_example = \<lparr>cells = (\<lambda>r i. Fin 100), next_ref = 1\<rparr>"



section \<open>Properties of the public pension\<close>

text \<open>
  C1. Retirement gate: with \<^verbatim>\<open>rentner = False\<close> the access factor, the pension claim
  before the supplement and the claim including the supplement are each exactly 0,
  whatever the birth year, the retirement year, the regular retirement age, the rates,
  the earning points, the pension value and the supplement are.
\<close>

theorem retirement_gate_zero:
  "ges_rente_zugangsfaktor geburtsjahr False jahr_renteneintr ges_rente_regelaltersgrenze params = 0
   \<and> ges_rente_vor_grundr_m zugangsfaktor entgeltp rentenwert False = 0
   \<and> ges_rente_nach_grundr_m vor_grundr zuschlag False = 0"
  by (simp add: ges_rente_zugangsfaktor_def ges_rente_vor_grundr_m_def
      ges_rente_nach_grundr_m_def)

text \<open>
  C5. Access factor, formula and lower bound: for a retired person, with
  \<open>diff = (jahr_renteneintr - geburtsjahr) - ges_rente_regelaltersgrenze\<close>, the access factor is
  \<open>max 0 (1 + diff * early rate)\<close> when \<open>diff < 0\<close> and \<open>max 0 (1 + diff * late rate)\<close>
  otherwise; and the access factor is at least 0 for every input, retired or not.
\<close>

theorem zugangsfaktor_formula_and_bound:
  "ges_rente_zugangsfaktor geburtsjahr True jahr_renteneintr ges_rente_regelaltersgrenze params =
     (if real_of_int (jahr_renteneintr - geburtsjahr) - ges_rente_regelaltersgrenze < 0
      then max 0 (1 + (real_of_int (jahr_renteneintr - geburtsjahr) - ges_rente_regelaltersgrenze)
                        * vorzeitiger_renteneintritt (zugangsfaktor_veraenderung_pro_jahr params))
      else max 0 (1 + (real_of_int (jahr_renteneintr - geburtsjahr) - ges_rente_regelaltersgrenze)
                        * spaeterer_renteneintritt (zugangsfaktor_veraenderung_pro_jahr params)))
   \<and> 0 \<le> ges_rente_zugangsfaktor geburtsjahr rentner jahr_renteneintr ges_rente_regelaltersgrenze params"
proof
  show "ges_rente_zugangsfaktor geburtsjahr True jahr_renteneintr ges_rente_regelaltersgrenze params =
     (if real_of_int (jahr_renteneintr - geburtsjahr) - ges_rente_regelaltersgrenze < 0
      then max 0 (1 + (real_of_int (jahr_renteneintr - geburtsjahr) - ges_rente_regelaltersgrenze)
                        * vorzeitiger_renteneintritt (zugangsfaktor_veraenderung_pro_jahr params))
      else max 0 (1 + (real_of_int (jahr_renteneintr - geburtsjahr) - ges_rente_regelaltersgrenze)
                        * spaeterer_renteneintritt (zugangsfaktor_veraenderung_pro_jahr params)))"
    by (simp add: ges_rente_zugangsfaktor_def Let_def max.commute)
next
  show "0 \<le> ges_rente_zugangsfaktor geburtsjahr rentner jahr_renteneintr ges_rente_regelaltersgrenze params"
    by (cases rentner) (simp_all add: ges_rente_zugangsfaktor_def Let_def)
qed

text \<open>
  Two facts about the list steps of \<^verbatim>\<open>ges_rente_grenze_altersrente\<close>: whenever
  \<^verbatim>\<open>extend\<close> succeeds the value of the call is \<^verbatim>\<open>None\<close>, and \<^verbatim>\<open>min(None)\<close> raises.
\<close>

lemma list_extend_value_None: "list_extend xs v = Inr (ys, w) \<Longrightarrow> w = PyNone"
  by (auto simp: list_extend_def split: sum.splits)

lemma py_min_None: "py_min PyNone = Inl TypeError"
  by (simp add: py_min_def)

text \<open>
  C2. The full retirement age is meant to be the regular retirement age for a man
  (\<^verbatim>\<open>geschlecht == 0\<close>) and the minimum of that age and the women's track otherwise. The
  code does not return it: \<^verbatim>\<open>thresholds_m.extend(pension_for_women)\<close> is handed a float,
  which cannot be iterated, so the call raises TypeError before the branch on
  \<^verbatim>\<open>geschlecht\<close> is reached; for every birth year, birth month, sex and parameter set the
  result is that exception. (Had the call succeeded, \<^verbatim>\<open>thresholds_w\<close> would be \<^verbatim>\<open>None\<close> and
  the minimum for a woman would raise all the same, by the two lemmas above.)
\<close>

theorem grenze_altersrente_raises:
  "ges_rente_grenze_altersrente pp geburtsjahr geburtsmonat geschlecht params = Inl TypeError"
  by (simp add: ges_rente_grenze_altersrente_def list_extend_def)

section \<open>Properties of the deductions\<close>

text \<open>
  C6. Regime selection by max: the deduction for 2010 to 2019 is exactly the maximum of
  the result until 2004 and the result from 2020, the deduction for 2005 to 2009 is exactly
  the maximum of the result until 2004 and the 2005 alternative; so each selector's value
  is at least each of its two arguments.
\<close>

theorem regime_selection_is_max:
  "vorsorgeaufw_tu_ab_2010_bis_2019 bis_2004 ab_2020 = max bis_2004 ab_2020
   \<and> bis_2004 \<le> vorsorgeaufw_tu_ab_2010_bis_2019 bis_2004 ab_2020
   \<and> ab_2020 \<le> vorsorgeaufw_tu_ab_2010_bis_2019 bis_2004 ab_2020
   \<and> vorsorgeaufw_tu_ab_2005_bis_2009 alternative bis_2004 = max bis_2004 alternative
   \<and> bis_2004 \<le> vorsorgeaufw_tu_ab_2005_bis_2009 alternative bis_2004
   \<and> alternative \<le> vorsorgeaufw_tu_ab_2005_bis_2009 alternative bis_2004"
  by (simp add: vorsorgeaufw_tu_ab_2010_bis_2019_def vorsorgeaufw_tu_ab_2005_bis_2009_def)

text \<open>
  The same on the sub-formulas themselves, wired as the argument names say: when the
  formula until 2004 returns (the adult count is not 0), the selectors dominate the
  values of the formulas they compare.
\<close>

lemma regime_selection_on_sub_formulas:
  assumes "vorsorgeaufw_tu_bis_2004 lohn kv rv anz p = Inr r2004"
  shows "vorsorgeaufw_tu_ab_2020 (vorsorgeaufw_alter_tu rv priv anz p) pv kv av anz p
           \<le> vorsorgeaufw_tu_ab_2010_bis_2019 r2004
                (vorsorgeaufw_tu_ab_2020 (vorsorgeaufw_alter_tu rv priv anz p) pv kv av anz p)"
    and "r2004 \<le> vorsorgeaufw_tu_ab_2010_bis_2019 r2004
                (vorsorgeaufw_tu_ab_2020 (vorsorgeaufw_alter_tu rv priv anz p) pv kv av anz p)"
    and "vorsorge_alternative_tu_ab_2005_bis_2009 (vorsorgeaufw_alter_tu rv priv anz p)
            kv av pv anz p
           \<le> vorsorgeaufw_tu_ab_2005_bis_2009
                (vorsorge_alternative_tu_ab_2005_bis_2009 (vorsorgeaufw_alter_tu rv priv anz p)
                   kv av pv anz p) r2004"
    and "r2004 \<le> vorsorgeaufw_tu_ab_2005_bis_2009
                (vorsorge_alternative_tu_ab_2005_bis_2009 (vorsorgeaufw_alter_tu rv priv anz p)
                   kv av pv anz p) r2004"
  by (simp_all add: vorsorgeaufw_tu_ab_2010_bis_2019_def vorsorgeaufw_tu_ab_2005_bis_2009_def)

text \<open>
  C8. Wage-deduction base until 2004: for a tax unit that is not assessed jointly the base
  is \<open>max (vorwegabzug - kuerzung * 12 * bruttolohn_m_tu) 0\<close>; with \<open>vorwegabzug = 3068\<close>,
  \<open>kuerzung = 0.16\<close> and a monthly wage of 2000 it is exactly 0.
\<close>

theorem vom_lohn_single_filer_base:
  "vorsorgeaufw_vom_lohn_tu_bis_2004 bruttolohn_m_tu False p =
     max (vorsorge2004_vorwegabzug p
          - vorsorge2004_kuerzung_vorwegabzug p * 12 * bruttolohn_m_tu) 0
   \<and> vorsorgeaufw_vom_lohn_tu_bis_2004 2000 False
        (p\<lparr>vorsorge2004_vorwegabzug := 3068, vorsorge2004_kuerzung_vorwegabzug := 0.16\<rparr>) = 0"
  by (simp add: vorsorgeaufw_vom_lohn_tu_bis_2004_def)

lemma vorsorgeaufw_alter_tu_example: "vorsorgeaufw_alter_tu 100 0 1 params_example = - 240"
  by (simp add: vorsorgeaufw_alter_tu_def params_example_def)

text \<open>
  C10. The phased retirement-savings deduction is capped above by the adult count times
  \<^verbatim>\<open>vorsorge_altersaufw_max\<close> and has no floor at zero: whenever the phase-in factor times
  (twice the public plus the private pension contribution) is smaller than the public
  contribution the result is strictly negative, and such inputs exist.
\<close>

theorem vorsorgeaufw_alter_capped_not_floored:
  "vorsorgeaufw_alter_tu g pr anz p \<le> real_of_int anz * vorsorge_altersaufw_max p
   \<and> (einfuehrungsfaktor_vorsorgeaufw_alter_ab_2005 p * (2 * g + pr) < g
        \<longrightarrow> vorsorgeaufw_alter_tu g pr anz p < 0)
   \<and> (\<exists>g' pr' anz' p'.
         einfuehrungsfaktor_vorsorgeaufw_alter_ab_2005 p' * (2 * g' + pr') < g'
         \<and> vorsorgeaufw_alter_tu g' pr' anz' p' < 0)"
proof (intro conjI impI)
  show "vorsorgeaufw_alter_tu g pr anz p \<le> real_of_int anz * vorsorge_altersaufw_max p"
    by (simp add: vorsorgeaufw_alter_tu_def Let_def)
next
  assume "einfuehrungsfaktor_vorsorgeaufw_alter_ab_2005 p * (2 * g + pr) < g"
  then show "vorsorgeaufw_alter_tu g pr anz p < 0"
    by (simp add: vorsorgeaufw_alter_tu_def Let_def min_less_iff_disj)
next
  have "einfuehrungsfaktor_vorsorgeaufw_alter_ab_2005 params_example * (2 * 100 + 0)
          < (100::real)"
    by (simp add: params_example_def)
  moreover have "vorsorgeaufw_alter_tu 100 0 1 params_example < 0"
    by (simp add: vorsorgeaufw_alter_tu_example)
  ultimately show "\<exists>g' pr' anz' p'.
         einfuehrungsfaktor_vorsorgeaufw_alter_ab_2005 p' * (2 * g' + pr') < g'
         \<and> vorsorgeaufw_alter_tu g' pr' anz' p' < 0"
    by blast
qed

theorem vorsorgeaufw_alter_capped_not_floored_witness:
  "einfuehrungsfaktor_vorsorgeaufw_alter_ab_2005 params_example * (2 * 100 + 0) < (100::real)
   \<and> vorsorgeaufw_alter_tu 100 0 1 params_example < 0
   \<and> vorsorgeaufw_alter_tu 100 0 1 params_example
       \<le> real_of_int 1 * vorsorge_altersaufw_max params_example"
proof -
  have h: "einfuehrungsfaktor_vorsorgeaufw_alter_ab_2005 params_example * (2 * 100 + 0)
             < (100::real)"
    by (simp add: params_example_def)
  note t = vorsorgeaufw_alter_capped_not_floored [of 100 0 1 params_example]
  from t h have c: "vorsorgeaufw_alter_tu 100 0 1 params_example < 0"
    by blast
  from t have b: "vorsorgeaufw_alter_tu 100 0 1 params_example
       \<le> real_of_int 1 * vorsorge_altersaufw_max params_example"
    by blast
  show ?thesis using h c b by blast
qed

section \<open>Properties of the basic subsistence benefit\<close>


lemma grundsicherung_m_hh_frame:
  "grundsicherung_m_hh h x wv kv wkv rag alter ae ar = (out, h') \<Longrightarrow> r < next_ref h \<Longrightarrow>
   out = next_ref h \<and> cells h' r = cells h r"
  by (auto simp: grundsicherung_m_hh_def series_clip_lower_def alloc_def loc_assign_def
      Let_def)

lemma vermoegens_check_value:
  "regelbedarf_m_grundsicherung_vermoegens_check_hh h r unter = (out, h') \<Longrightarrow>
   out = r \<and> cells h' r i = (if unter i then cells h r i else Fin 0)"
  by (auto simp: regelbedarf_m_grundsicherung_vermoegens_check_hh_def loc_assign_def Let_def)




text \<open>The product with 5000 in 64 bits is the product of the integers when that fits.\<close>

lemma sint_5000_times:
  fixes w :: "64 word"
  assumes "- (2 ^ 63) \<le> 5000 * sint w" and "5000 * sint w < 2 ^ 63"
  shows "sint (5000 * w) = 5000 * sint w"
proof -
  have "sint (5000 * w) = signed_take_bit 63 (sint (5000 :: 64 word) * sint w)"
    by (simp add: sint_word_mult)
  also have "sint (5000 :: 64 word) = 5000"
    by simp
  also have "signed_take_bit 63 (5000 * sint w) = 5000 * sint w"
    using assms by (intro signed_take_bit_int_eq_self) simp_all
  finally show ?thesis .
qed

text \<open>
  C4, as stated: the exempt wealth is 5000 times the household size for every household.
  It is not where the product leaves the 64-bit range: for a size of \<open>2 ^ 62\<close> the product
  wraps to 0, so a household with wealth 0, far below 5000 times its size, fails the test
  and its basic need is set to 0.
\<close>

theorem wealth_cliff_wraps:
  "sint (2 ^ 62 :: 64 word) = 2 ^ 62
   \<and> sint (freibetrag_vermoegen_grundsicherung_hh (\<lambda>i. 2 ^ 62) 0) = 0
   \<and> (0::real) < 5000 * real_of_int (sint (2 ^ 62 :: 64 word))
   \<and> \<not> unter_vermoegens_freibetrag_grundsicherung_hh (\<lambda>i. 0)
          (freibetrag_vermoegen_grundsicherung_hh (\<lambda>i. 2 ^ 62)) 0
   \<and> cells (snd (regelbedarf_m_grundsicherung_vermoegens_check_hh store_example 0
            (unter_vermoegens_freibetrag_grundsicherung_hh (\<lambda>i. 0)
               (freibetrag_vermoegen_grundsicherung_hh (\<lambda>i. 2 ^ 62))))) 0 0 = Fin 0"
proof -
  have a: "sint (2 ^ 62 :: 64 word) = 2 ^ 62"
    by simp
  have b: "(5000 :: 64 word) * 2 ^ 62 = 0"
    by simp
  show ?thesis
    by (simp add: a b freibetrag_vermoegen_grundsicherung_hh_def
      unter_vermoegens_freibetrag_grundsicherung_hh_def
      regelbedarf_m_grundsicherung_vermoegens_check_hh_def loc_assign_def Let_def
      store_example_def)
qed

text \<open>
  C4, amended. Wealth cliff: for every household whose size times 5000 lies in the 64-bit
  range, the exempt wealth is 5000 times the household size, the wealth test holds exactly
  for wealth strictly below it, and the checked basic need of the row is the basic need
  itself when the test holds and 0 otherwise. For every household, the checked basic need
  is the basic need itself when the wealth is strictly below the computed exempt wealth and
  0 otherwise (equality included), so nothing is tapered.
\<close>

theorem wealth_cliff:
  "(- (2 ^ 63) \<le> 5000 * sint (hg i) \<and> 5000 * sint (hg i) < 2 ^ 63 \<longrightarrow>
      sint (freibetrag_vermoegen_grundsicherung_hh hg i) = 5000 * sint (hg i)
      \<and> unter_vermoegens_freibetrag_grundsicherung_hh verm
           (freibetrag_vermoegen_grundsicherung_hh hg) i
         = (verm i < 5000 * real_of_int (sint (hg i)))
      \<and> cells (snd (regelbedarf_m_grundsicherung_vermoegens_check_hh h r
               (unter_vermoegens_freibetrag_grundsicherung_hh verm
                  (freibetrag_vermoegen_grundsicherung_hh hg)))) r i
         = (if verm i < 5000 * real_of_int (sint (hg i)) then cells h r i else Fin 0))
   \<and> fst (regelbedarf_m_grundsicherung_vermoegens_check_hh h r
            (unter_vermoegens_freibetrag_grundsicherung_hh verm
               (freibetrag_vermoegen_grundsicherung_hh hg))) = r
   \<and> cells (snd (regelbedarf_m_grundsicherung_vermoegens_check_hh h r
            (unter_vermoegens_freibetrag_grundsicherung_hh verm
               (freibetrag_vermoegen_grundsicherung_hh hg)))) r i
      = (if verm i < real_of_int (sint (freibetrag_vermoegen_grundsicherung_hh hg i))
         then cells h r i else Fin 0)"
proof (intro conjI impI)
  assume "- (2 ^ 63) \<le> 5000 * sint (hg i) \<and> 5000 * sint (hg i) < 2 ^ 63"
  then have s: "sint (5000 * hg i) = 5000 * sint (hg i)"
    by (intro sint_5000_times) simp_all
  have "real_of_int (sint (5000 * hg i)) = 5000 * real_of_int (sint (hg i))"
    by (simp only: s of_int_mult of_int_numeral)
  then have s2: "(signed (5000 * hg i) :: real) = 5000 * signed (hg i)"
    by simp
  show "sint (freibetrag_vermoegen_grundsicherung_hh hg i) = 5000 * sint (hg i)"
    by (simp add: freibetrag_vermoegen_grundsicherung_hh_def s)
  show "unter_vermoegens_freibetrag_grundsicherung_hh verm
           (freibetrag_vermoegen_grundsicherung_hh hg) i
         = (verm i < 5000 * real_of_int (sint (hg i)))"
    by (simp add: freibetrag_vermoegen_grundsicherung_hh_def
        unter_vermoegens_freibetrag_grundsicherung_hh_def s2)
  show "cells (snd (regelbedarf_m_grundsicherung_vermoegens_check_hh h r
               (unter_vermoegens_freibetrag_grundsicherung_hh verm
                  (freibetrag_vermoegen_grundsicherung_hh hg)))) r i
         = (if verm i < 5000 * real_of_int (sint (hg i)) then cells h r i else Fin 0)"
    by (simp add: freibetrag_vermoegen_grundsicherung_hh_def
        unter_vermoegens_freibetrag_grundsicherung_hh_def
        regelbedarf_m_grundsicherung_vermoegens_check_hh_def loc_assign_def Let_def s2)
next
  show "fst (regelbedarf_m_grundsicherung_vermoegens_check_hh h r
            (unter_vermoegens_freibetrag_grundsicherung_hh verm
               (freibetrag_vermoegen_grundsicherung_hh hg))) = r"
    by (simp add: regelbedarf_m_grundsicherung_vermoegens_check_hh_def Let_def)
next
  show "cells (snd (regelbedarf_m_grundsicherung_vermoegens_check_hh h r
            (unter_vermoegens_freibetrag_grundsicherung_hh verm
               (freibetrag_vermoegen_grundsicherung_hh hg)))) r i
      = (if verm i < real_of_int (sint (freibetrag_vermoegen_grundsicherung_hh hg i))
         then cells h r i else Fin 0)"
    by (simp add: unter_vermoegens_freibetrag_grundsicherung_hh_def
        regelbedarf_m_grundsicherung_vermoegens_check_hh_def loc_assign_def Let_def)
qed

text \<open>
  The scenario of a household of two: the exempt wealth is 10000; wealth 9000 keeps the
  basic need of 100, wealth 10000 sets it to 0.
\<close>

theorem wealth_cliff_witness:
  "sint (freibetrag_vermoegen_grundsicherung_hh (\<lambda>i. 2) 0) = 10000
   \<and> unter_vermoegens_freibetrag_grundsicherung_hh (\<lambda>i. 9000)
        (freibetrag_vermoegen_grundsicherung_hh (\<lambda>i. 2)) 0
   \<and> \<not> unter_vermoegens_freibetrag_grundsicherung_hh (\<lambda>i. 10000)
        (freibetrag_vermoegen_grundsicherung_hh (\<lambda>i. 2)) 0
   \<and> cells (snd (regelbedarf_m_grundsicherung_vermoegens_check_hh store_example 0
            (unter_vermoegens_freibetrag_grundsicherung_hh (\<lambda>i. 9000)
               (freibetrag_vermoegen_grundsicherung_hh (\<lambda>i. 2))))) 0 0 = Fin 100
   \<and> cells (snd (regelbedarf_m_grundsicherung_vermoegens_check_hh store_example 0
            (unter_vermoegens_freibetrag_grundsicherung_hh (\<lambda>i. 10000)
               (freibetrag_vermoegen_grundsicherung_hh (\<lambda>i. 2))))) 0 0 = Fin 0"
proof -
  have hyp: "- (2 ^ 63) \<le> 5000 * sint ((\<lambda>i. 2 :: 64 word) (0::int))
      \<and> 5000 * sint ((\<lambda>i. 2 :: 64 word) (0::int)) < 2 ^ 63"
    by simp
  have two: "sint ((\<lambda>i. 2 :: 64 word) (0::int)) = 2"
    by simp
  have c: "cells store_example 0 0 = Fin 100"
    by (simp add: store_example_def)
  note lo = wealth_cliff [of "\<lambda>i. 2" 0 "\<lambda>i. 9000" store_example 0, THEN conjunct1, THEN mp,
      OF hyp]
  note hi = wealth_cliff [of "\<lambda>i. 2" 0 "\<lambda>i. 10000" store_example 0, THEN conjunct1, THEN mp,
      OF hyp]
  show ?thesis
    using lo hi by (simp add: two c)
qed

text \<open>
  C9. No input mutation does not hold for
  \<^verbatim>\<open>regelbedarf_m_grundsicherung_vermoegens_check_hh\<close>: the series it returns is the very
  object it was given, and the rows that fail the wealth test are overwritten in it. On a
  store whose series 0 holds 100 in row 1, a call with a failing wealth test returns
  reference 0 and leaves 0 in that row of the caller's series. (\<^verbatim>\<open>grundsicherung_m_hh\<close>, by
  \<open>grundsicherung_m_hh_frame\<close>, writes into the fresh series that \<^verbatim>\<open>clip\<close> made and leaves
  every existing series as it was.)
\<close>

theorem vermoegens_check_mutates_input:
  "cells store_example 0 1 = Fin 100
   \<and> fst (regelbedarf_m_grundsicherung_vermoegens_check_hh store_example 0 (\<lambda>i. False)) = 0
   \<and> cells (snd (regelbedarf_m_grundsicherung_vermoegens_check_hh store_example 0 (\<lambda>i. False)))
        0 1 = Fin 0"
  by (simp add: regelbedarf_m_grundsicherung_vermoegens_check_hh_def loc_assign_def Let_def
      store_example_def)





text \<open>
  Not-a-number also comes from a tax unit that has an adult count but is missing from the
  income tax series, and \<^verbatim>\<open>grundsicherung_m_hh\<close> hands on a not-a-number amount in a row
  that meets no priority condition.
\<close>

lemma grundsicherung_eink_unlisted_tax_nan:
  "grundsicherung_eink (\<lambda>i. 1000) Map.empty (\<lambda>i. 1) [1 \<mapsto> 240] [1 \<mapsto> 2] (\<lambda>i. 100) (\<lambda>i. 50)
      (\<lambda>i. 0) 0 = NaN"
  by (simp add: grundsicherung_eink_def series_replace_def series_div_scalar_def
      series_truediv_def)

lemma grundsicherung_m_hh_keeps_nan:
  "cells (snd (grundsicherung_m_hh \<lparr>cells = (\<lambda>r i. NaN), next_ref = 1\<rparr> 0 (\<lambda>i. False)
                 (\<lambda>i. False) (\<lambda>i. False) (\<lambda>i. 66) (\<lambda>i. 70) (\<lambda>i. 2) (\<lambda>i. 2)))
      (fst (grundsicherung_m_hh \<lparr>cells = (\<lambda>r i. NaN), next_ref = 1\<rparr> 0 (\<lambda>i. False)
                 (\<lambda>i. False) (\<lambda>i. False) (\<lambda>i. 66) (\<lambda>i. 70) (\<lambda>i. 2) (\<lambda>i. 2))) 0 = NaN"
  by (simp add: grundsicherung_m_hh_def series_clip_lower_def alloc_def loc_assign_def
      Let_def)



end
